theory Spec2Isabelle
  imports Complex_Main "HOL-Library.Sublist"
begin

section \<open>Python text\<close>

text \<open>
  A Python \<open>str\<close> is a sequence of Unicode code points. It is modelled as a list of
  natural numbers, one per code point, so that the whitespace test of \<open>str.strip\<close>
  ranges over all of Unicode and not over one byte. \<open>py\<close> gives the code points of a
  literal of the source.
\<close>

type_synonym pystr = "nat list"

definition py :: "string \<Rightarrow> pystr" where
  "py s = map of_char s"

text \<open>
  \<open>str.isspace\<close> on one code point, the test \<open>str.strip()\<close> applies at both ends
  (CPython's table of whitespace code points: U+0009..U+000D, U+001C..U+0020, U+0085,
  U+00A0, U+1680, U+2000..U+200A, U+2028, U+2029, U+202F, U+205F, U+3000).
\<close>

definition isspace :: "nat \<Rightarrow> bool" where
  "isspace c =
     ((9 \<le> c \<and> c \<le> 13) \<or> (28 \<le> c \<and> c \<le> 32) \<or> c = 133 \<or> c = 160 \<or> c = 5760
      \<or> (8192 \<le> c \<and> c \<le> 8202) \<or> c = 8232 \<or> c = 8233 \<or> c = 8239 \<or> c = 8287
      \<or> c = 12288)"

text \<open>\<open>s.strip()\<close>: leading and trailing whitespace removed.\<close>

definition strip :: "pystr \<Rightarrow> pystr" where
  "strip s = rev (dropWhile isspace (rev (dropWhile isspace s)))"

text \<open>\<open>s.replace(c, r)\<close> for a one-character pattern \<open>c\<close>.\<close>

definition replace_char :: "nat \<Rightarrow> pystr \<Rightarrow> pystr \<Rightarrow> pystr" where
  "replace_char c r s = concat (map (\<lambda>x. if x = c then r else [x]) s)"

text \<open>
  \<open>html.escape(s)\<close> of the standard library with its default \<open>quote=True\<close>: five
  replacements in this order, the ampersand first.
\<close>

definition html_escape :: "pystr \<Rightarrow> pystr" where
  "html_escape s =
     replace_char (of_char CHR 0x27) (py ''&#x27;'')
       (replace_char (of_char CHR 0x22) (py ''&quot;'')
         (replace_char (of_char CHR ''>'') (py ''&gt;'')
           (replace_char (of_char CHR ''<'') (py ''&lt;'')
             (replace_char (of_char CHR ''&'') (py ''&amp;'') s))))"

text \<open>The character class \<open>[<>"']\<close> of the regular expression in \<open>sanitize_input\<close>.\<close>

definition dangerous :: "nat \<Rightarrow> bool" where
  "dangerous c =
     (c = of_char CHR ''<'' \<or> c = of_char CHR ''>'' \<or> c = of_char CHR 0x22
      \<or> c = of_char CHR 0x27)"

section \<open>utils/helpers.py\<close>

definition sanitize_input :: "pystr \<Rightarrow> pystr" where
  "sanitize_input text0 =
     (if text0 = [] then []
      else
        let text1 = html_escape text0;
            text2 = filter (\<lambda>c. \<not> dangerous c) text1;
            text3 = (if length text2 > 4000 then take 4000 text2 @ py ''...'' else text2)
        in strip text3)"

text \<open>The characters \<open>html.escape\<close> rewrites: a text without them is left as it is.\<close>

definition html_special :: "nat \<Rightarrow> bool" where
  "html_special c =
     (c = of_char CHR ''&'' \<or> c = of_char CHR ''<'' \<or> c = of_char CHR ''>''
      \<or> c = of_char CHR 0x22 \<or> c = of_char CHR 0x27)"

section \<open>Python values, the configuration and the remote API\<close>

text \<open>\<open>str(n)\<close> for an integer: its decimal digits, with a minus sign when negative.\<close>

fun str_nat :: "nat \<Rightarrow> pystr" where
  "str_nat n = (if n < 10 then [48 + n] else str_nat (n div 10) @ [48 + n mod 10])"

declare str_nat.simps [simp del]

definition str_int :: "int \<Rightarrow> pystr" where
  "str_int i = (if i < 0 then 45 # str_nat (nat (- i)) else str_nat (nat i))"

text \<open>
  The values stored in the dictionary \<open>send_message\<close> returns, and the dictionary itself
  as the list of its items in insertion order. A key that is missing from the list is
  missing from the dictionary; a key bound to \<open>PyNone\<close> is present with value \<open>None\<close>.
\<close>

datatype pyval = PyNone | PyBool bool | PyInt int | PyFloat real | PyStr pystr

type_synonym pydict = "(string \<times> pyval) list"

text \<open>
  Modelled from the spec: \<open>config.py\<close> is not among the sources. \<open>Config\<close> holds the
  API credential, a maximum allowed input length, a maximum retry count and a request
  timeout; \<open>send_message\<close> reads the three numeric settings. The credential is \<open>None\<close>
  when it is not set.
\<close>

record config =
  OPENAI_API_KEY :: "pystr option"
  MAX_MESSAGE_LENGTH :: int
  MAX_RETRIES :: int
  API_TIMEOUT :: int

text \<open>
  Modelled from the spec: \<open>Config.get_missing_config()\<close> and \<open>Config.validate_config()\<close>
  are not among the sources. The specification's invariant of a configuration is that
  the credential is non-empty and all numeric settings are positive, and a failed
  validation lists the missing keys: \<open>get_missing_config\<close> names the settings that break
  the invariant, and \<open>validate_config\<close> holds when there is none.
\<close>

definition get_missing_config :: "config \<Rightarrow> pystr list" where
  "get_missing_config cfg =
     (if OPENAI_API_KEY cfg = None \<or> OPENAI_API_KEY cfg = Some []
      then [py ''OPENAI_API_KEY''] else [])
     @ (if MAX_MESSAGE_LENGTH cfg \<le> 0 then [py ''MAX_MESSAGE_LENGTH''] else [])
     @ (if MAX_RETRIES cfg \<le> 0 then [py ''MAX_RETRIES''] else [])
     @ (if API_TIMEOUT cfg \<le> 0 then [py ''API_TIMEOUT''] else [])"

definition validate_config :: "config \<Rightarrow> bool" where
  "validate_config cfg = (get_missing_config cfg = [])"

text \<open>The keyword arguments of \<open>client.chat.completions.create\<close>.\<close>

record request =
  model :: pystr
  messages :: "(pystr \<times> pystr) list"
  max_tokens :: int
  timeout :: int

text \<open>
  What \<open>send_message\<close> reads of a completion: the list \<open>choices\<close>, the \<open>message\<close> of a
  choice (which may be \<open>None\<close>), the \<open>content\<close> of a message (an optional string in the
  client library) and \<open>usage.total_tokens\<close> when \<open>usage\<close> is there.
\<close>

datatype chat_message = ChatMessage (content: "pystr option")

datatype choice = Choice (message: "chat_message option")

datatype usage = Usage (total_tokens: int)

datatype completion = ChatCompletion (choices: "choice list") (usage: "usage option")

text \<open>
  Exceptions. The classes are those of the \<open>openai\<close> client library (version 1, the one
  that provides \<open>openai.OpenAI\<close> and \<open>client.chat.completions.create\<close>), followed by
  \<open>Exception\<close> and by any other class derived from \<open>Exception\<close>, given by its name.
  \<open>mro\<close> lists a class and its base classes as the library declares them:
  \<open>RateLimitError\<close> and \<open>AuthenticationError\<close> derive from \<open>APIStatusError\<close>, which
  derives from \<open>APIError\<close>, which derives from \<open>OpenAIError\<close>.
\<close>

datatype exc_class =
    Exception
  | OpenAIError
  | APIError
  | APIStatusError
  | APIConnectionError
  | APITimeoutError
  | AuthenticationError
  | RateLimitError
  | OtherException string

fun mro :: "exc_class \<Rightarrow> exc_class list" where
  "mro Exception = [Exception]"
| "mro OpenAIError = [OpenAIError, Exception]"
| "mro APIError = [APIError, OpenAIError, Exception]"
| "mro APIStatusError = [APIStatusError, APIError, OpenAIError, Exception]"
| "mro APIConnectionError = [APIConnectionError, APIError, OpenAIError, Exception]"
| "mro APITimeoutError =
     [APITimeoutError, APIConnectionError, APIError, OpenAIError, Exception]"
| "mro AuthenticationError =
     [AuthenticationError, APIStatusError, APIError, OpenAIError, Exception]"
| "mro RateLimitError = [RateLimitError, APIStatusError, APIError, OpenAIError, Exception]"
| "mro (OtherException name) = [OtherException name, Exception]"

text \<open>An exception object: its class and the text \<open>str(e)\<close> gives.\<close>

datatype exn = Exn (cls: exc_class) (str_of: pystr)

text \<open>\<open>isinstance(e, c)\<close>, the test an \<open>except c\<close> clause makes.\<close>

definition isinstance :: "exn \<Rightarrow> exc_class \<Rightarrow> bool" where
  "isinstance e c = (c \<in> set (mro (cls e)))"

text \<open>One call of the remote API returns a completion or raises.\<close>

datatype api_outcome = Returns completion | Raises exn

text \<open>
  What a call of \<open>send_message\<close> does besides returning: the network calls it issues,
  its sleeps and the lines it logs, in the order they happen, and how often it has read
  the clock. The remote API is a function \<open>api\<close>: \<open>api k req\<close> is the outcome of the
  call issued on attempt \<open>k\<close> with request \<open>req\<close>. The clock is a function \<open>clock\<close>:
  \<open>clock i\<close> is what the \<open>i\<close>-th reading of \<open>time.time()\<close> returns.
\<close>

datatype event = Call request | Sleep real | LogError pystr

record world =
  trace :: "event list"
  reads :: nat

definition fresh :: world where
  "fresh = \<lparr>trace = [], reads = 0\<rparr>"

definition emit :: "event \<Rightarrow> world \<Rightarrow> world" where
  "emit ev w = w\<lparr>trace := trace w @ [ev]\<rparr>"

definition time_time :: "(nat \<Rightarrow> real) \<Rightarrow> world \<Rightarrow> real \<times> world" where
  "time_time clock w = (clock (reads w), w\<lparr>reads := Suc (reads w)\<rparr>)"

fun calls_of :: "event list \<Rightarrow> request list" where
  "calls_of [] = []"
| "calls_of (Call r # es) = r # calls_of es"
| "calls_of (Sleep d # es) = calls_of es"
| "calls_of (LogError l # es) = calls_of es"

fun sleeps_of :: "event list \<Rightarrow> real list" where
  "sleeps_of [] = []"
| "sleeps_of (Call r # es) = sleeps_of es"
| "sleeps_of (Sleep d # es) = d # sleeps_of es"
| "sleeps_of (LogError l # es) = sleeps_of es"

text \<open>
  How a call ends: it returns a value, which for \<open>send_message\<close> is a dictionary or,
  when the body ends without a \<open>return\<close>, \<open>None\<close>; or an exception leaves it.
\<close>

datatype 'a outcome = Returned 'a | Raised exn

section \<open>services/llm\_service.py\<close>

text \<open>
  \<open>openai.OpenAI(api_key=k)\<close> of the client library: a key that is \<open>None\<close> is looked up
  in the environment variable \<open>OPENAI_API_KEY\<close>, and the constructor raises
  \<open>OpenAIError\<close> when that is not set either. The client is given by the key it holds.
\<close>

definition OpenAI :: "pystr option \<Rightarrow> pystr option \<Rightarrow> pystr outcome" where
  "OpenAI api_key environ_key =
     (case api_key of
        Some k \<Rightarrow> Returned k
      | None \<Rightarrow>
          (case environ_key of
             Some k \<Rightarrow> Returned k
           | None \<Rightarrow>
               Raised (Exn OpenAIError
                 (py (''The api_key client option must be set either by passing api_key ''
                      @ ''to the client or by setting the OPENAI_API_KEY environment ''
                      @ ''variable'')))))"

text \<open>
  The constructor: it raises \<open>ValueError\<close> with the list of missing keys when the
  validation fails, and otherwise creates the client, whose own exception it lets pass.
  The service is given by its client; \<open>environ_key\<close> is the value of the environment
  variable the client library reads.
\<close>

fun join :: "pystr \<Rightarrow> pystr list \<Rightarrow> pystr" where
  "join sep [] = []"
| "join sep [x] = x"
| "join sep (x # y # ys) = x @ sep @ join sep (y # ys)"

definition LLMService_init :: "config \<Rightarrow> pystr option \<Rightarrow> pystr outcome" where
  "LLMService_init cfg environ_key =
     (if \<not> validate_config cfg
      then Raised (Exn (OtherException ''ValueError'')
             (py ''Missing required configuration: ''
              @ join (py '', '') (get_missing_config cfg)))
      else (case OpenAI (OPENAI_API_KEY cfg) environ_key of
              Raised e \<Rightarrow> Raised e
            | Returned client \<Rightarrow> Returned client))"

text \<open>The dictionary of a failure: the four keys every failing \<open>return\<close> writes.\<close>

definition failure :: "pystr \<Rightarrow> pyval \<Rightarrow> pydict" where
  "failure err response_time =
     [(''success'', PyBool False), (''response'', PyNone), (''error'', PyStr err),
      (''response_time'', response_time)]"

text \<open>
  The request of every attempt: the message as a single user turn, at most 1000 tokens
  of response, the configured timeout.
\<close>

definition chat_request :: "config \<Rightarrow> pystr \<Rightarrow> pystr \<Rightarrow> request" where
  "chat_request cfg msg mdl =
     \<lparr>model = mdl, messages = [(py ''user'', msg)], max_tokens = 1000,
      timeout = API_TIMEOUT cfg\<rparr>"

text \<open>
  The loop \<open>for attempt in range(Config.MAX_RETRIES)\<close>: the first argument after
  \<open>start_time\<close> counts the iterations that remain, \<open>attempt\<close> is the loop variable.
  The \<open>except\<close> clauses are tried in the order of the source, and the first whose class
  the exception is an instance of handles it. When no iteration remains the body of
  \<open>send_message\<close> ends without a \<open>return\<close>.
\<close>

primrec attempts ::
  "config \<Rightarrow> (nat \<Rightarrow> request \<Rightarrow> api_outcome) \<Rightarrow> (nat \<Rightarrow> real) \<Rightarrow> pystr \<Rightarrow> pystr \<Rightarrow> real
     \<Rightarrow> nat \<Rightarrow> nat \<Rightarrow> world \<Rightarrow> pydict option outcome \<times> world"
where
  "attempts cfg api clock msg mdl start_time 0 attempt w = (Returned None, w)"
| "attempts cfg api clock msg mdl start_time (Suc remaining) attempt w =
     (let req = chat_request cfg msg mdl;
          w1 = emit (Call req) w
      in case api attempt req of
           Returns response \<Rightarrow>
             (let (now, w2) = time_time clock w1;
                  response_time = now - start_time
              in case choices response of
                   [] \<Rightarrow> (Returned (Some (failure (py ''Empty response from API'')
                                             (PyFloat response_time))), w2)
                 | c # cs \<Rightarrow>
                     (case message c of
                        None \<Rightarrow> (Returned (Some (failure (py ''Empty response from API'')
                                                  (PyFloat response_time))), w2)
                      | Some m \<Rightarrow>
                          (Returned (Some
                             [(''success'', PyBool True),
                              (''response'', (case content m of None \<Rightarrow> PyNone
                                              | Some s \<Rightarrow> PyStr s)),
                              (''error'', PyNone),
                              (''response_time'', PyFloat response_time),
                              (''model_used'', PyStr mdl),
                              (''tokens_used'', (case usage response of None \<Rightarrow> PyNone
                                                 | Some u \<Rightarrow> PyInt (total_tokens u)))]),
                           w2)))
         | Raises e \<Rightarrow>
             if isinstance e APIError then
               (let w2 = emit (LogError (py ''OpenAI API error (attempt ''
                                 @ str_int (int attempt + 1) @ py ''): '' @ str_of e)) w1
                in if int attempt = MAX_RETRIES cfg - 1
                   then (let (now, w3) = time_time clock w2
                         in (Returned (Some (failure (py ''API Error: '' @ str_of e)
                                               (PyFloat (now - start_time)))), w3))
                   else attempts cfg api clock msg mdl start_time remaining (Suc attempt)
                          (emit (Sleep 1) w2))
             else if isinstance e RateLimitError then
               (let w2 = emit (LogError (py ''Rate limit exceeded (attempt ''
                                 @ str_int (int attempt + 1) @ py ''): '' @ str_of e)) w1
                in if int attempt = MAX_RETRIES cfg - 1
                   then (let (now, w3) = time_time clock w2
                         in (Returned (Some (failure
                                (py ''Rate limit exceeded. Please try again later.'')
                                (PyFloat (now - start_time)))), w3))
                   else attempts cfg api clock msg mdl start_time remaining (Suc attempt)
                          (emit (Sleep 2) w2))
             else if isinstance e AuthenticationError then
               (let (now, w2) = time_time clock w1
                in (Returned (Some (failure
                      (py ''Invalid API key. Please check your configuration.'')
                      (PyFloat (now - start_time)))), w2))
             else if isinstance e Exception then
               (let w2 = emit (LogError (py ''Unexpected error (attempt ''
                                 @ str_int (int attempt + 1) @ py ''): '' @ str_of e)) w1
                in if int attempt = MAX_RETRIES cfg - 1
                   then (let (now, w3) = time_time clock w2
                         in (Returned (Some (failure (py ''Unexpected error: '' @ str_of e)
                                               (PyFloat (now - start_time)))), w3))
                   else attempts cfg api clock msg mdl start_time remaining (Suc attempt)
                          (emit (Sleep 1) w2))
             else (Raised e, w1))"

definition send_message ::
  "config \<Rightarrow> (nat \<Rightarrow> request \<Rightarrow> api_outcome) \<Rightarrow> (nat \<Rightarrow> real) \<Rightarrow> pystr \<Rightarrow> pystr \<Rightarrow> world
     \<Rightarrow> pydict option outcome \<times> world"
where
  "send_message cfg api clock msg mdl w =
     (if msg = [] \<or> strip msg = [] then
        (Returned (Some (failure (py ''Empty message provided'') (PyInt 0))), w)
      else if int (length msg) > MAX_MESSAGE_LENGTH cfg then
        (Returned (Some (failure (py ''Message too long. Maximum ''
                                    @ str_int (MAX_MESSAGE_LENGTH cfg)
                                    @ py '' characters allowed.'') (PyInt 0))), w)
      else
        (let (start_time, w1) = time_time clock w
         in attempts cfg api clock msg mdl start_time (nat (MAX_RETRIES cfg)) 0 w1))"

text \<open>\<open>test_connection\<close> sends a fixed greeting with the default model.\<close>

definition test_connection ::
  "config \<Rightarrow> (nat \<Rightarrow> request \<Rightarrow> api_outcome) \<Rightarrow> (nat \<Rightarrow> real) \<Rightarrow> world
     \<Rightarrow> pydict option outcome \<times> world"
where
  "test_connection cfg api clock w =
     send_message cfg api clock (py ''Hello! This is a connection test.'')
       (py ''gpt-3.5-turbo'') w"

section \<open>Properties of a returned dictionary\<close>

text \<open>
  A field is present when its key is in the dictionary with a value other than \<open>None\<close>.
\<close>

definition present :: "pydict \<Rightarrow> string \<Rightarrow> bool" where
  "present d k = (case map_of d k of None \<Rightarrow> False | Some v \<Rightarrow> v \<noteq> PyNone)"

definition succeeded :: "pydict \<Rightarrow> bool" where
  "succeeded d = (map_of d ''success'' = Some (PyBool True))"

definition failed :: "pydict \<Rightarrow> bool" where
  "failed d = (map_of d ''success'' = Some (PyBool False))"

definition nonneg_time :: "pydict \<Rightarrow> bool" where
  "nonneg_time d =
     (case map_of d ''response_time'' of
        Some (PyInt i) \<Rightarrow> 0 \<le> i
      | Some (PyFloat r) \<Rightarrow> 0 \<le> r
      | _ \<Rightarrow> False)"

text \<open>
  The invariant of a result record as the specification words it: response present and
  error absent iff success is true, error present and response absent iff success is
  false, a non-negative response time, \<open>model_used\<close> present iff success is true.
\<close>

definition dispatch_invariant :: "pydict \<Rightarrow> bool" where
  "dispatch_invariant d =
     ((succeeded d = (present d ''response'' \<and> \<not> present d ''error''))
      \<and> (failed d = (present d ''error'' \<and> \<not> present d ''response''))
      \<and> nonneg_time d
      \<and> (present d ''model_used'' = succeeded d))"

text \<open>
  The part of that invariant the returned dictionaries satisfy whatever the clock does:
  it differs in its first conjunct, where success is tied to the absence of an error
  only and a present response is a sign of success, and leaves the response time out.
\<close>

definition structural_invariant :: "pydict \<Rightarrow> bool" where
  "structural_invariant d =
     ((succeeded d = (\<not> present d ''error''))
      \<and> (present d ''response'' \<longrightarrow> succeeded d)
      \<and> (failed d = (present d ''error'' \<and> \<not> present d ''response''))
      \<and> (present d ''model_used'' = succeeded d))"

text \<open>
  A structured result: a dictionary with the four keys of a failure, \<open>success\<close> false,
  an error and no response, or with the six keys of a success, \<open>success\<close> true, no
  error and the model used.
\<close>

definition is_dispatch_result :: "pydict \<Rightarrow> bool" where
  "is_dispatch_result d =
     ((failed d
       \<and> map fst d = [''success'', ''response'', ''error'', ''response_time'']
       \<and> present d ''error'' \<and> map_of d ''response'' = Some PyNone)
      \<or> (succeeded d
          \<and> map fst d = [''success'', ''response'', ''error'', ''response_time'',
                          ''model_used'', ''tokens_used'']
          \<and> map_of d ''error'' = Some PyNone \<and> present d ''model_used''))"

text \<open>
  The test that sends a completion to the branch \<open>Empty response from API\<close>: the
  negation of \<open>response.choices and response.choices[0].message\<close>.
\<close>

definition no_message :: "completion \<Rightarrow> bool" where
  "no_message response =
     (case choices response of [] \<Rightarrow> True | c # cs \<Rightarrow> message c = None)"

section \<open>Concrete inputs\<close>

definition example_config :: config where
  "example_config =
     \<lparr>OPENAI_API_KEY = Some (py ''sk-test''), MAX_MESSAGE_LENGTH = 1000, MAX_RETRIES = 3,
      API_TIMEOUT = 30\<rparr>"

definition tiny_config :: config where
  "tiny_config =
     \<lparr>OPENAI_API_KEY = Some (py ''sk-test''), MAX_MESSAGE_LENGTH = 1, MAX_RETRIES = 3,
      API_TIMEOUT = 30\<rparr>"

text \<open>A configuration whose credential is not set.\<close>

definition keyless_config :: config where
  "keyless_config =
     \<lparr>OPENAI_API_KEY = None, MAX_MESSAGE_LENGTH = 1000, MAX_RETRIES = 3, API_TIMEOUT = 30\<rparr>"

text \<open>A clock that advances by one second from one reading to the next.\<close>

definition wall_clock :: "nat \<Rightarrow> real" where
  "wall_clock i = real i"

text \<open>A clock that is set back after its first reading: it reads 10, then 0.\<close>

definition backward_clock :: "nat \<Rightarrow> real" where
  "backward_clock i = (if i = 0 then 10 else 0)"

definition always_rate_limited :: "nat \<Rightarrow> request \<Rightarrow> api_outcome" where
  "always_rate_limited k req = Raises (Exn RateLimitError (py ''slow down''))"

definition always_unauthorized :: "nat \<Rightarrow> request \<Rightarrow> api_outcome" where
  "always_unauthorized k req = Raises (Exn AuthenticationError (py ''bad key''))"

definition always_broken :: "nat \<Rightarrow> request \<Rightarrow> api_outcome" where
  "always_broken k req = Raises (Exn (OtherException ''ConnectionResetError'') (py ''reset''))"

text \<open>A completion whose only choice has a message with \<open>content = None\<close>.\<close>

definition contentless :: completion where
  "contentless = ChatCompletion [Choice (Some (ChatMessage None))] None"

definition always_contentless :: "nat \<Rightarrow> request \<Rightarrow> api_outcome" where
  "always_contentless k req = Returns contentless"

text \<open>A completion with content and usage, and one with no choices at all.\<close>

definition greeting :: completion where
  "greeting = ChatCompletion [Choice (Some (ChatMessage (Some (py ''Hello!''))))] (Some (Usage 12))"

definition always_greeting :: "nat \<Rightarrow> request \<Rightarrow> api_outcome" where
  "always_greeting k req = Returns greeting"

definition fails_then_empty :: "nat \<Rightarrow> request \<Rightarrow> api_outcome" where
  "fails_then_empty k req =
     (if k = 0 then Raises (Exn APIConnectionError (py ''Connection error.''))
      else Returns (ChatCompletion [] None))"

definition fails_then_contentless :: "nat \<Rightarrow> request \<Rightarrow> api_outcome" where
  "fails_then_contentless k req =
     (if k = 0 then Raises (Exn APIConnectionError (py ''Connection error.''))
      else Returns contentless)"

text \<open>
  The dictionary of a success, as the first \<open>return\<close> of the loop writes it: the
  response is the \<open>content\<close> of the first choice's message as it is, \<open>None\<close> included.
\<close>

definition success :: "completion \<Rightarrow> chat_message \<Rightarrow> pystr \<Rightarrow> real \<Rightarrow> pydict" where
  "success response m mdl response_time =
     [(''success'', PyBool True),
      (''response'', (case content m of None \<Rightarrow> PyNone | Some s \<Rightarrow> PyStr s)),
      (''error'', PyNone),
      (''response_time'', PyFloat response_time),
      (''model_used'', PyStr mdl),
      (''tokens_used'', (case usage response of None \<Rightarrow> PyNone
                         | Some u \<Rightarrow> PyInt (total_tokens u)))]"

text \<open>
  What the \<open>except\<close> clauses come to for an exception \<open>e\<close>: the line logged and the
  error text of the last attempt. Both are stated by the first clause that matches, which
  for every instance of \<open>APIError\<close> is the clause \<open>except openai.APIError\<close>.
\<close>

definition log_line :: "exn \<Rightarrow> nat \<Rightarrow> pystr" where
  "log_line e attempt =
     (if isinstance e APIError then py ''OpenAI API error (attempt ''
      else py ''Unexpected error (attempt '')
     @ str_int (int attempt + 1) @ py ''): '' @ str_of e"

definition final_error :: "exn \<Rightarrow> pystr" where
  "final_error e =
     (if isinstance e APIError then py ''API Error: '' else py ''Unexpected error: '')
     @ str_of e"

section \<open>Text helpers\<close>

lemma set_strip: "set (strip s) \<subseteq> set s"
proof -
  have "set (strip s) \<subseteq> set (dropWhile isspace s)"
    unfolding strip_def using set_dropWhileD by fastforce
  also have "\<dots> \<subseteq> set s"
    using set_dropWhileD by fastforce
  finally show ?thesis .
qed

lemma strip_empty_iff: "strip s = [] \<longleftrightarrow> list_all isspace s"
proof
  assume a: "strip s = []"
  show "list_all isspace s"
  proof (rule ccontr)
    assume "\<not> list_all isspace s"
    then have ne: "dropWhile isspace s \<noteq> []"
      by (simp add: list_all_iff dropWhile_eq_Nil_conv)
    then have "\<not> isspace (hd (dropWhile isspace s))"
      by (rule hd_dropWhile)
    moreover have "hd (dropWhile isspace s) \<in> set (rev (dropWhile isspace s))"
      using ne by simp
    ultimately have "dropWhile isspace (rev (dropWhile isspace s)) \<noteq> []"
      by (auto simp: dropWhile_eq_Nil_conv)
    with a show False by (simp add: strip_def)
  qed
next
  assume "list_all isspace s"
  then have "\<forall>x\<in>set s. isspace x"
    by (simp add: list_all_iff)
  then show "strip s = []"
    by (auto simp: strip_def dropWhile_eq_Nil_conv dest: set_dropWhileD)
qed

lemma dots_not_space: "\<not> isspace 46"
  by (simp add: isspace_def)

lemma py_dots: "py ''...'' = [46, 46, 46]"
  by (simp add: py_def)

text \<open>Stripping a text that ends in the truncation marker keeps the marker.\<close>

lemma strip_keeps_dots: "\<exists>q. strip (x @ py ''...'') = q @ py ''...'' \<and> length q \<le> length x"
proof -
  define q where "q = (if \<forall>c\<in>set x. isspace c then [] else dropWhile isspace x)"
  have a: "dropWhile isspace (x @ py ''...'') = q @ py ''...''"
    by (simp add: q_def dropWhile_append py_dots dots_not_space)
  have "dropWhile isspace (rev (q @ py ''...'')) = rev (q @ py ''...'')"
    by (simp add: py_dots dots_not_space)
  then have "strip (x @ py ''...'') = q @ py ''...''"
    unfolding strip_def a by (simp del: rev_append)
  moreover have "length q \<le> length x"
    by (simp add: q_def length_dropWhile_le)
  ultimately show ?thesis by blast
qed

lemma replace_char_absent: "c \<notin> set s \<Longrightarrow> replace_char c r s = s"
  by (induction s) (auto simp: replace_char_def)

lemma html_escape_plain:
  assumes "list_all (\<lambda>c. \<not> html_special c) t"
  shows "html_escape t = t"
proof -
  from assms have "\<And>c. html_special c \<Longrightarrow> c \<notin> set t"
    by (auto simp: list_all_iff)
  then show ?thesis
    by (simp add: html_escape_def html_special_def replace_char_absent)
qed

lemma filter_plain:
  assumes "list_all (\<lambda>c. \<not> html_special c) t"
  shows "filter (\<lambda>c. \<not> dangerous c) t = t"
  using assms by (induction t) (auto simp: dangerous_def html_special_def)

section \<open>sanitize\_input\<close>

text \<open>
  C8: for every input, the output of \<open>sanitize_input\<close> contains none of the characters
  \<open><\<close>, \<open>>\<close>, the double quote and the single quote; in particular the output for
  \<open><script>alert('x')</script>\<close> is the escaped text, with none of the four left.
\<close>

theorem sanitize_input_no_dangerous:
  "set (sanitize_input t)
     \<inter> {of_char CHR ''<'', of_char CHR ''>'', of_char CHR 0x22, of_char CHR 0x27} = {}
   \<and> sanitize_input (py ''<script>alert('x')</script>'')
       = py ''&lt;script&gt;alert(&#x27;x&#x27;)&lt;/script&gt;''"
proof
  have "set (sanitize_input t) \<subseteq> {c. \<not> dangerous c}"
  proof (cases "t = []")
    case True
    then show ?thesis by (simp add: sanitize_input_def)
  next
    case False
    let ?f = "filter (\<lambda>c. \<not> dangerous c) (html_escape t)"
    have f: "set ?f \<subseteq> {c. \<not> dangerous c}" by auto
    have d: "set (py ''...'') \<subseteq> {c. \<not> dangerous c}"
      by (simp add: py_dots dangerous_def)
    have "set (if length ?f > 4000 then take 4000 ?f @ py ''...'' else ?f)
            \<subseteq> {c. \<not> dangerous c}"
      using f d set_take_subset [of 4000 ?f] by auto
    then show ?thesis
      using False set_strip by (fastforce simp: sanitize_input_def Let_def)
  qed
  then show "set (sanitize_input t)
     \<inter> {of_char CHR ''<'', of_char CHR ''>'', of_char CHR 0x22, of_char CHR 0x27} = {}"
    by (auto simp: dangerous_def)
next
  show "sanitize_input (py ''<script>alert('x')</script>'')
       = py ''&lt;script&gt;alert(&#x27;x&#x27;)&lt;/script&gt;''"
    by (simp add: sanitize_input_def html_escape_def replace_char_def py_def dangerous_def
        strip_def isspace_def)
qed

text \<open>
  C9: for every text of 5000 characters none of which \<open>html.escape\<close> rewrites, the
  output of \<open>sanitize_input\<close> has at most 4003 characters and ends with the truncation
  marker \<open>...\<close>.
\<close>

theorem sanitize_input_truncates:
  assumes "length t = 5000" and "list_all (\<lambda>c. \<not> html_special c) t"
  shows "length (sanitize_input t) \<le> 4003 \<and> suffix (py ''...'') (sanitize_input t)"
proof -
  from assms(1) have ne: "t \<noteq> []" by auto
  have eq: "sanitize_input t = strip (take 4000 t @ py ''...'')"
    using ne assms by (simp add: sanitize_input_def html_escape_plain filter_plain)
  obtain q where q: "strip (take 4000 t @ py ''...'') = q @ py ''...''"
    and len: "length q \<le> length (take 4000 t)"
    using strip_keeps_dots by blast
  from len assms(1) have "length q \<le> 4000" by simp
  then show ?thesis
    unfolding eq q by (simp add: py_dots suffix_def)
qed

theorem sanitize_input_truncates_witness:
  "length (replicate 5000 (97::nat)) = 5000
   \<and> list_all (\<lambda>c. \<not> html_special c) (replicate 5000 97)
   \<and> length (sanitize_input (replicate 5000 97)) \<le> 4003
   \<and> suffix (py ''...'') (sanitize_input (replicate 5000 97))"
proof -
  have h1: "length (replicate 5000 (97::nat)) = 5000" by simp
  have h2: "list_all (\<lambda>c. \<not> html_special c) (replicate 5000 97)"
    by (simp add: list_all_iff html_special_def)
  show ?thesis
    using h1 h2 sanitize_input_truncates [OF h1 h2] by blast
qed

section \<open>send\_message: the checks on the message\<close>

text \<open>
  C3, as the code has it: for every message that is empty or consists of whitespace
  only, \<open>send_message\<close> returns the failure \<open>Empty message provided\<close> with response time
  0 and issues no network call; and for every message that is neither empty nor
  whitespace only and is longer than \<open>MAX_MESSAGE_LENGTH\<close>, it returns the failure that
  cites the limit, with response time 0 and no network call.
\<close>

theorem send_message_rejects_input:
  "((msg = [] \<or> list_all isspace msg) \<longrightarrow>
      send_message cfg api clock msg mdl fresh
        = (Returned (Some (failure (py ''Empty message provided'') (PyInt 0))), fresh)
      \<and> calls_of (trace (snd (send_message cfg api clock msg mdl fresh))) = [])
   \<and> (msg \<noteq> [] \<and> \<not> list_all isspace msg \<and> int (length msg) > MAX_MESSAGE_LENGTH cfg \<longrightarrow>
      send_message cfg api clock msg mdl fresh
        = (Returned (Some (failure (py ''Message too long. Maximum ''
                                      @ str_int (MAX_MESSAGE_LENGTH cfg)
                                      @ py '' characters allowed.'') (PyInt 0))), fresh)
      \<and> calls_of (trace (snd (send_message cfg api clock msg mdl fresh))) = [])"
  by (simp add: send_message_def strip_empty_iff fresh_def)

theorem send_message_rejects_input_witness:
  "(([] = ([]::pystr) \<or> list_all isspace []) \<and>
      send_message example_config always_greeting wall_clock [] (py ''gpt-3.5-turbo'') fresh
        = (Returned (Some (failure (py ''Empty message provided'') (PyInt 0))), fresh))
   \<and> (py ''hello'' \<noteq> [] \<and> \<not> list_all isspace (py ''hello'')
        \<and> int (length (py ''hello'')) > MAX_MESSAGE_LENGTH tiny_config
        \<and> send_message tiny_config always_greeting wall_clock (py ''hello'')
            (py ''gpt-3.5-turbo'') fresh
        = (Returned (Some (failure (py ''Message too long. Maximum 1 characters allowed.'')
                             (PyInt 0))), fresh))"
  using send_message_rejects_input
          [of "[]" example_config always_greeting wall_clock "py ''gpt-3.5-turbo''"]
    send_message_rejects_input
          [of "py ''hello''" tiny_config always_greeting wall_clock "py ''gpt-3.5-turbo''"]
  by (simp add: py_def isspace_def tiny_config_def str_int_def str_nat.simps)

text \<open>
  The second half of C3 as it is worded, for every message longer than the limit, fails
  on a message of two spaces with a limit of one character: the message is longer than
  the limit and the error is \<open>Empty message provided\<close>, not the one citing the limit.
\<close>

theorem over_length_blank_counterexample:
  "int (length (py ''  '')) > MAX_MESSAGE_LENGTH tiny_config
   \<and> fst (send_message tiny_config always_greeting wall_clock (py ''  '')
            (py ''gpt-3.5-turbo'') fresh)
       = Returned (Some (failure (py ''Empty message provided'') (PyInt 0)))
   \<and> fst (send_message tiny_config always_greeting wall_clock (py ''  '')
            (py ''gpt-3.5-turbo'') fresh)
       \<noteq> Returned (Some (failure (py ''Message too long. Maximum ''
                                      @ str_int (MAX_MESSAGE_LENGTH tiny_config)
                                      @ py '' characters allowed.'') (PyInt 0)))"
  by (simp add: send_message_def tiny_config_def py_def strip_def isspace_def failure_def)

text \<open>
  C10: for every message that is not empty, consists of whitespace only and is longer
  than \<open>MAX_MESSAGE_LENGTH\<close>, \<open>send_message\<close> returns the failure
  \<open>Empty message provided\<close> and not the failure that cites the limit: the whitespace
  check comes first.
\<close>

theorem blank_checked_before_length:
  "msg \<noteq> [] \<Longrightarrow> list_all isspace msg \<Longrightarrow> int (length msg) > MAX_MESSAGE_LENGTH cfg \<Longrightarrow>
     send_message cfg api clock msg mdl fresh
       = (Returned (Some (failure (py ''Empty message provided'') (PyInt 0))), fresh)
     \<and> fst (send_message cfg api clock msg mdl fresh)
       \<noteq> Returned (Some (failure (py ''Message too long. Maximum ''
                                      @ str_int (MAX_MESSAGE_LENGTH cfg)
                                      @ py '' characters allowed.'') (PyInt 0)))"
  by (simp add: send_message_def strip_empty_iff failure_def py_def)

theorem blank_checked_before_length_witness:
  "py ''  '' \<noteq> [] \<and> list_all isspace (py ''  '')
   \<and> int (length (py ''  '')) > MAX_MESSAGE_LENGTH tiny_config
   \<and> send_message tiny_config always_greeting wall_clock (py ''  '') (py ''gpt-3.5-turbo'')
       fresh
       = (Returned (Some (failure (py ''Empty message provided'') (PyInt 0))), fresh)"
proof -
  have h1: "py ''  '' \<noteq> []" by (simp add: py_def)
  have h2: "list_all isspace (py ''  '')" by (simp add: py_def isspace_def)
  have h3: "int (length (py ''  '')) > MAX_MESSAGE_LENGTH tiny_config"
    by (simp add: py_def tiny_config_def)
  show ?thesis
    using h1 h2 h3 blank_checked_before_length [OF h1 h2 h3] by blast
qed

section \<open>send\_message: one iteration of the loop\<close>

text \<open>
  Every exception is an instance of \<open>Exception\<close>, and the two classes the later
  \<open>except\<close> clauses name are subclasses of the class the first clause names.
\<close>

lemma instance_of_Exception: "isinstance e Exception"
  by (cases e; cases "cls e") (auto simp: isinstance_def)

lemma RateLimitError_is_APIError: "isinstance e RateLimitError \<Longrightarrow> isinstance e APIError"
  by (cases e; cases "cls e") (auto simp: isinstance_def)

lemma AuthenticationError_is_APIError:
  "isinstance e AuthenticationError \<Longrightarrow> isinstance e APIError"
  by (cases e; cases "cls e") (auto simp: isinstance_def)

lemma calls_of_append: "calls_of (xs @ ys) = calls_of xs @ calls_of ys"
  by (induction xs rule: calls_of.induct) auto

lemma sleeps_of_append: "sleeps_of (xs @ ys) = sleeps_of xs @ sleeps_of ys"
  by (induction xs rule: sleeps_of.induct) auto

lemma reads_emit: "reads (emit ev w) = reads w"
  by (simp add: emit_def)

text \<open>
  The four ways an iteration goes: the API returns a completion that fails the test on
  \<open>choices\<close> and \<open>message\<close>, or one that passes it; the API raises on the last attempt,
  or on an earlier one. The clauses for \<open>RateLimitError\<close> and \<open>AuthenticationError\<close>
  never run: an instance of either is caught by the clause for \<open>APIError\<close> before them.
\<close>

lemma attempts_Returns_empty:
  assumes "api attempt (chat_request cfg msg mdl) = Returns response"
    and "no_message response"
  shows "attempts cfg api clock msg mdl st (Suc k) attempt w
         = (Returned (Some (failure (py ''Empty response from API'')
                              (PyFloat (clock (reads w) - st)))),
            snd (time_time clock (emit (Call (chat_request cfg msg mdl)) w)))"
  using assms
  by (simp add: Let_def emit_def time_time_def no_message_def split: list.splits option.splits)

lemma attempts_Returns_message:
  assumes "api attempt (chat_request cfg msg mdl) = Returns response"
    and "choices response = c # cs" and "message c = Some m"
  shows "attempts cfg api clock msg mdl st (Suc k) attempt w
         = (Returned (Some (success response m mdl (clock (reads w) - st))),
            snd (time_time clock (emit (Call (chat_request cfg msg mdl)) w)))"
  using assms
  by (simp add: Let_def emit_def time_time_def success_def)

lemma attempts_Raises_last:
  assumes "api attempt (chat_request cfg msg mdl) = Raises e"
    and "int attempt = MAX_RETRIES cfg - 1"
  shows "attempts cfg api clock msg mdl st (Suc k) attempt w
         = (Returned (Some (failure (final_error e) (PyFloat (clock (reads w) - st)))),
            snd (time_time clock (emit (LogError (log_line e attempt))
                                    (emit (Call (chat_request cfg msg mdl)) w))))"
  using assms instance_of_Exception [of e] RateLimitError_is_APIError [of e]
    AuthenticationError_is_APIError [of e]
  by (auto simp: Let_def emit_def time_time_def final_error_def log_line_def)

lemma attempts_Raises_retry:
  assumes "api attempt (chat_request cfg msg mdl) = Raises e"
    and "int attempt \<noteq> MAX_RETRIES cfg - 1"
  shows "attempts cfg api clock msg mdl st (Suc k) attempt w
         = attempts cfg api clock msg mdl st k (Suc attempt)
             (emit (Sleep 1) (emit (LogError (log_line e attempt))
                                (emit (Call (chat_request cfg msg mdl)) w)))"
  using assms instance_of_Exception [of e] RateLimitError_is_APIError [of e]
    AuthenticationError_is_APIError [of e]
  by (auto simp: Let_def log_line_def)

section \<open>send\_message: a completion on the first attempt\<close>

lemma send_message_first_message:
  assumes "msg \<noteq> []" and "\<not> list_all isspace msg"
    and "int (length msg) \<le> MAX_MESSAGE_LENGTH cfg"
    and "0 < MAX_RETRIES cfg"
    and "api 0 (chat_request cfg msg mdl) = Returns response"
    and "choices response = c # cs" and "message c = Some m"
  shows "send_message cfg api clock msg mdl fresh
         = (Returned (Some (success response m mdl (clock 1 - clock 0))),
            \<lparr>trace = [Call (chat_request cfg msg mdl)], reads = 2\<rparr>)"
proof -
  from assms(4) obtain r where n: "nat (MAX_RETRIES cfg) = Suc r"
    by (cases "nat (MAX_RETRIES cfg)") auto
  let ?w1 = "fresh\<lparr>reads := Suc 0\<rparr>"
  have "send_message cfg api clock msg mdl fresh
        = attempts cfg api clock msg mdl (clock 0) (Suc r) 0 ?w1"
    using assms(1-3) by (simp add: send_message_def strip_empty_iff time_time_def fresh_def n)
  also have "\<dots> = (Returned (Some (success response m mdl (clock (reads ?w1) - clock 0))),
                    snd (time_time clock (emit (Call (chat_request cfg msg mdl)) ?w1)))"
    by (rule attempts_Returns_message [where api = api and attempt = 0, OF assms(5-7)])
  finally show ?thesis
    by (simp add: time_time_def emit_def fresh_def)
qed

lemma hi_is_valid:
  "py ''hi'' \<noteq> [] \<and> \<not> list_all isspace (py ''hi'')
   \<and> int (length (py ''hi'')) \<le> MAX_MESSAGE_LENGTH example_config
   \<and> 0 < MAX_RETRIES example_config"
  by (simp add: py_def isspace_def example_config_def)

text \<open>
  C4: for every message that passes the checks, if the API returns on the first attempt
  a completion whose first choice has a message with content, \<open>send_message\<close> issues
  exactly one network call and returns \<open>success = True\<close> with that content as the
  response, the model as \<open>model_used\<close> and the token count when the API reports usage;
  nothing follows the call in the trace. (The content need not be non-empty for this.)
\<close>

theorem first_completion_is_returned:
  assumes "msg \<noteq> []" and "\<not> list_all isspace msg"
    and "int (length msg) \<le> MAX_MESSAGE_LENGTH cfg"
    and "0 < MAX_RETRIES cfg"
    and "api 0 (chat_request cfg msg mdl) = Returns response"
    and "choices response = c # cs" and "message c = Some m" and "content m = Some s"
  shows "send_message cfg api clock msg mdl fresh
         = (Returned (Some
              [(''success'', PyBool True), (''response'', PyStr s), (''error'', PyNone),
               (''response_time'', PyFloat (clock 1 - clock 0)),
               (''model_used'', PyStr mdl),
               (''tokens_used'', (case usage response of None \<Rightarrow> PyNone
                                  | Some u \<Rightarrow> PyInt (total_tokens u)))]),
            \<lparr>trace = [Call (chat_request cfg msg mdl)], reads = 2\<rparr>)"
  using send_message_first_message [where api = api and clock = clock, OF assms(1-7)]
    assms(8)
  by (simp add: success_def)

theorem first_completion_is_returned_witness:
  "py ''hi'' \<noteq> [] \<and> \<not> list_all isspace (py ''hi'')
   \<and> int (length (py ''hi'')) \<le> MAX_MESSAGE_LENGTH example_config
   \<and> 0 < MAX_RETRIES example_config
   \<and> always_greeting 0 (chat_request example_config (py ''hi'') (py ''gpt-3.5-turbo''))
       = Returns greeting
   \<and> choices greeting = Choice (Some (ChatMessage (Some (py ''Hello!'')))) # []
   \<and> message (Choice (Some (ChatMessage (Some (py ''Hello!'')))))
       = Some (ChatMessage (Some (py ''Hello!'')))
   \<and> content (ChatMessage (Some (py ''Hello!''))) = Some (py ''Hello!'')
   \<and> send_message example_config always_greeting wall_clock (py ''hi'') (py ''gpt-3.5-turbo'')
       fresh
       = (Returned (Some
            [(''success'', PyBool True), (''response'', PyStr (py ''Hello!'')),
             (''error'', PyNone), (''response_time'', PyFloat (wall_clock 1 - wall_clock 0)),
             (''model_used'', PyStr (py ''gpt-3.5-turbo'')),
             (''tokens_used'', PyInt 12)]),
          \<lparr>trace = [Call (chat_request example_config (py ''hi'') (py ''gpt-3.5-turbo''))],
           reads = 2\<rparr>)"
proof -
  have h5: "always_greeting 0 (chat_request example_config (py ''hi'') (py ''gpt-3.5-turbo''))
              = Returns greeting"
    by (simp add: always_greeting_def)
  have h6: "choices greeting = Choice (Some (ChatMessage (Some (py ''Hello!'')))) # []"
    by (simp add: greeting_def)
  have h7: "message (Choice (Some (ChatMessage (Some (py ''Hello!'')))))
              = Some (ChatMessage (Some (py ''Hello!'')))"
    by simp
  have h8: "content (ChatMessage (Some (py ''Hello!''))) = Some (py ''Hello!'')"
    by simp
  have u: "usage greeting = Some (Usage 12)" by (simp add: greeting_def)
  from hi_is_valid have h1: "py ''hi'' \<noteq> []" and h2: "\<not> list_all isspace (py ''hi'')"
    and h3: "int (length (py ''hi'')) \<le> MAX_MESSAGE_LENGTH example_config"
    and h4: "0 < MAX_RETRIES example_config"
    by simp_all
  show ?thesis
    using h1 h2 h3 h4 h5 h6 h7 h8
      first_completion_is_returned [where api = always_greeting and clock = wall_clock,
        OF h1 h2 h3 h4 h5 h6 h7 h8]
    by (simp add: u)
qed

section \<open>send\_message: a completion on a later attempt\<close>

lemma attempts_retry_prefix:
  assumes "\<And>j. attempt \<le> j \<Longrightarrow> j < attempt + n \<Longrightarrow>
             \<exists>e. api j (chat_request cfg msg mdl) = Raises e"
    and "int (attempt + n) < MAX_RETRIES cfg"
  shows "\<exists>w'. attempts cfg api clock msg mdl st (n + k) attempt w
                 = attempts cfg api clock msg mdl st k (attempt + n) w'
              \<and> calls_of (trace w')
                 = calls_of (trace w) @ replicate n (chat_request cfg msg mdl)
              \<and> reads w' = reads w"
  using assms
proof (induction n arbitrary: attempt w)
  case 0
  have "attempts cfg api clock msg mdl st (0 + k) attempt w
          = attempts cfg api clock msg mdl st k (attempt + 0) w
        \<and> calls_of (trace w) = calls_of (trace w) @ replicate 0 (chat_request cfg msg mdl)
        \<and> reads w = reads w"
    by simp
  then show ?case by blast
next
  case (Suc n)
  obtain e where e: "api attempt (chat_request cfg msg mdl) = Raises e"
    using Suc.prems(1) [of attempt] by auto
  from Suc.prems(2) have ne: "int attempt \<noteq> MAX_RETRIES cfg - 1" by simp
  let ?w = "emit (Sleep 1) (emit (LogError (log_line e attempt))
              (emit (Call (chat_request cfg msg mdl)) w))"
  have step: "attempts cfg api clock msg mdl st (Suc n + k) attempt w
              = attempts cfg api clock msg mdl st (n + k) (Suc attempt) ?w"
    using attempts_Raises_retry [where api = api and attempt = attempt, OF e ne] by simp
  have "\<And>j. Suc attempt \<le> j \<Longrightarrow> j < Suc attempt + n \<Longrightarrow>
             \<exists>e. api j (chat_request cfg msg mdl) = Raises e"
    using Suc.prems(1) by simp
  moreover from Suc.prems(2) have "int (Suc attempt + n) < MAX_RETRIES cfg" by simp
  ultimately obtain w' where w':
    "attempts cfg api clock msg mdl st (n + k) (Suc attempt) ?w
       = attempts cfg api clock msg mdl st k (Suc attempt + n) w'"
    "calls_of (trace w') = calls_of (trace ?w) @ replicate n (chat_request cfg msg mdl)"
    "reads w' = reads ?w"
    using Suc.IH [of "Suc attempt" ?w] by blast
  have "calls_of (trace ?w) = calls_of (trace w) @ [chat_request cfg msg mdl]"
    by (simp add: emit_def calls_of_append)
  with w' step show ?case
    by (auto simp: reads_emit replicate_app_Cons_same)
qed

text \<open>
  A valid message whose first \<open>k\<close> attempts raise reaches attempt \<open>k\<close> after \<open>k\<close> calls
  and the one reading of the clock that gave the start time.
\<close>

lemma send_message_reaches_attempt:
  assumes "msg \<noteq> []" and "\<not> list_all isspace msg"
    and "int (length msg) \<le> MAX_MESSAGE_LENGTH cfg"
    and "int k < MAX_RETRIES cfg"
    and "\<forall>j<k. \<exists>e. api j (chat_request cfg msg mdl) = Raises e"
  shows "\<exists>w1 r. send_message cfg api clock msg mdl fresh
                  = attempts cfg api clock msg mdl (clock 0) (Suc r) k w1
               \<and> calls_of (trace w1) = replicate k (chat_request cfg msg mdl)
               \<and> reads w1 = 1"
proof -
  define r where "r = nat (MAX_RETRIES cfg) - Suc k"
  from assms(4) have n: "nat (MAX_RETRIES cfg) = k + Suc r"
    unfolding r_def by linarith
  let ?w1 = "fresh\<lparr>reads := Suc 0\<rparr>"
  have start: "send_message cfg api clock msg mdl fresh
               = attempts cfg api clock msg mdl (clock 0) (k + Suc r) 0 ?w1"
    using assms(1-3) by (simp add: send_message_def strip_empty_iff time_time_def fresh_def n)
  have "\<And>j. 0 \<le> j \<Longrightarrow> j < 0 + k \<Longrightarrow> \<exists>e. api j (chat_request cfg msg mdl) = Raises e"
    using assms(5) by simp
  moreover from assms(4) have "int (0 + k) < MAX_RETRIES cfg" by simp
  ultimately obtain w' where w':
    "attempts cfg api clock msg mdl (clock 0) (k + Suc r) 0 ?w1
       = attempts cfg api clock msg mdl (clock 0) (Suc r) (0 + k) w'"
    "calls_of (trace w') = calls_of (trace ?w1) @ replicate k (chat_request cfg msg mdl)"
    "reads w' = reads ?w1"
    using attempts_retry_prefix [of 0 k api cfg msg mdl clock "clock 0" "Suc r" ?w1] by blast
  have "send_message cfg api clock msg mdl fresh
          = attempts cfg api clock msg mdl (clock 0) (Suc r) k w'
        \<and> calls_of (trace w') = replicate k (chat_request cfg msg mdl)
        \<and> reads w' = 1"
    using start w' by (simp add: fresh_def)
  then show ?thesis by blast
qed

text \<open>
  C5, as the code has it. Let the message pass the checks, the attempts before attempt
  \<open>k\<close> raise and the API return a completion on attempt \<open>k\<close>, with \<open>k\<close> below
  \<open>MAX_RETRIES\<close>. If the completion has no choices or its first choice has no message,
  \<open>send_message\<close> returns the failure \<open>Empty response from API\<close> with the elapsed time
  read after that call, and has issued \<open>k + 1\<close> calls: none follows, however many
  attempts remain. If its first choice has a message, \<open>send_message\<close> returns a success
  whose response is the content of that message, \<open>None\<close> when the message has no
  content, with no error, the same elapsed time, the model and the total tokens of the
  usage, \<open>None\<close> without usage, and again has issued \<open>k + 1\<close> calls.
\<close>

theorem empty_response_is_final:
  assumes "msg \<noteq> []" and "\<not> list_all isspace msg"
    and "int (length msg) \<le> MAX_MESSAGE_LENGTH cfg"
    and "int k < MAX_RETRIES cfg"
    and "\<forall>j<k. \<exists>e. api j (chat_request cfg msg mdl) = Raises e"
    and "api k (chat_request cfg msg mdl) = Returns response"
  shows "(no_message response \<longrightarrow>
            (\<exists>w'. send_message cfg api clock msg mdl fresh
                    = (Returned (Some
                         [(''success'', PyBool False), (''response'', PyNone),
                          (''error'', PyStr (py ''Empty response from API'')),
                          (''response_time'', PyFloat (clock 1 - clock 0))]), w')
                  \<and> calls_of (trace w') = replicate (Suc k) (chat_request cfg msg mdl)))
         \<and> (\<forall>c cs m. choices response = c # cs \<and> message c = Some m \<longrightarrow>
              (\<exists>w'. send_message cfg api clock msg mdl fresh
                      = (Returned (Some
                           [(''success'', PyBool True),
                            (''response'',
                               (case content m of None \<Rightarrow> PyNone | Some s \<Rightarrow> PyStr s)),
                            (''error'', PyNone),
                            (''response_time'', PyFloat (clock 1 - clock 0)),
                            (''model_used'', PyStr mdl),
                            (''tokens_used'',
                               (case usage response of None \<Rightarrow> PyNone
                                | Some u \<Rightarrow> PyInt (total_tokens u)))]), w')
                    \<and> calls_of (trace w') = replicate (Suc k) (chat_request cfg msg mdl)))"
proof -
  obtain w1 r where w1:
    "send_message cfg api clock msg mdl fresh
       = attempts cfg api clock msg mdl (clock 0) (Suc r) k w1"
    "calls_of (trace w1) = replicate k (chat_request cfg msg mdl)"
    "reads w1 = 1"
    using send_message_reaches_attempt [where api = api and clock = clock, OF assms(1-5)]
    by blast
  let ?w' = "snd (time_time clock (emit (Call (chat_request cfg msg mdl)) w1))"
  have calls: "calls_of (trace ?w') = replicate (Suc k) (chat_request cfg msg mdl)"
    using w1(2) by (simp add: time_time_def emit_def calls_of_append replicate_append_same)
  have empty: "\<exists>w'. send_message cfg api clock msg mdl fresh
                    = (Returned (Some
                         [(''success'', PyBool False), (''response'', PyNone),
                          (''error'', PyStr (py ''Empty response from API'')),
                          (''response_time'', PyFloat (clock 1 - clock 0))]), w')
                  \<and> calls_of (trace w') = replicate (Suc k) (chat_request cfg msg mdl)"
    if nm: "no_message response"
  proof -
    have "attempts cfg api clock msg mdl (clock 0) (Suc r) k w1
        = (Returned (Some (failure (py ''Empty response from API'')
                             (PyFloat (clock (reads w1) - clock 0)))), ?w')"
      by (rule attempts_Returns_empty [where api = api and attempt = k, OF assms(6) nm])
    with w1 calls show ?thesis by (simp add: failure_def)
  qed
  have full: "\<exists>w'. send_message cfg api clock msg mdl fresh
                      = (Returned (Some
                           [(''success'', PyBool True),
                            (''response'',
                               (case content m of None \<Rightarrow> PyNone | Some s \<Rightarrow> PyStr s)),
                            (''error'', PyNone),
                            (''response_time'', PyFloat (clock 1 - clock 0)),
                            (''model_used'', PyStr mdl),
                            (''tokens_used'',
                               (case usage response of None \<Rightarrow> PyNone
                                | Some u \<Rightarrow> PyInt (total_tokens u)))]), w')
                    \<and> calls_of (trace w') = replicate (Suc k) (chat_request cfg msg mdl)"
    if cm: "choices response = c # cs" "message c = Some m" for c cs m
  proof -
    have "attempts cfg api clock msg mdl (clock 0) (Suc r) k w1
        = (Returned (Some (success response m mdl (clock (reads w1) - clock 0))), ?w')"
      by (rule attempts_Returns_message [where api = api and attempt = k, OF assms(6) cm])
    with w1 calls show ?thesis by (simp add: success_def)
  qed
  from empty full show ?thesis by blast
qed

theorem empty_response_is_final_witness:
  "py ''hi'' \<noteq> [] \<and> \<not> list_all isspace (py ''hi'')
   \<and> int (length (py ''hi'')) \<le> MAX_MESSAGE_LENGTH example_config
   \<and> int 1 < MAX_RETRIES example_config
   \<and> fails_then_empty 0 (chat_request example_config (py ''hi'') (py ''gpt-3.5-turbo''))
       = Raises (Exn APIConnectionError (py ''Connection error.''))
   \<and> fails_then_empty 1 (chat_request example_config (py ''hi'') (py ''gpt-3.5-turbo''))
       = Returns (ChatCompletion [] None)
   \<and> no_message (ChatCompletion [] None)
   \<and> (\<exists>w'. send_message example_config fails_then_empty wall_clock (py ''hi'')
              (py ''gpt-3.5-turbo'') fresh
              = (Returned (Some
                   [(''success'', PyBool False), (''response'', PyNone),
                    (''error'', PyStr (py ''Empty response from API'')),
                    (''response_time'', PyFloat (wall_clock 1 - wall_clock 0))]), w')
            \<and> calls_of (trace w')
              = replicate (Suc 1)
                  (chat_request example_config (py ''hi'') (py ''gpt-3.5-turbo'')))
   \<and> fails_then_contentless 0
         (chat_request example_config (py ''hi'') (py ''gpt-3.5-turbo''))
       = Raises (Exn APIConnectionError (py ''Connection error.''))
   \<and> fails_then_contentless 1
         (chat_request example_config (py ''hi'') (py ''gpt-3.5-turbo''))
       = Returns (ChatCompletion [Choice (Some (ChatMessage None))] None)
   \<and> (\<exists>w'. send_message example_config fails_then_contentless wall_clock (py ''hi'')
              (py ''gpt-3.5-turbo'') fresh
              = (Returned (Some
                   [(''success'', PyBool True), (''response'', PyNone), (''error'', PyNone),
                    (''response_time'', PyFloat (wall_clock 1 - wall_clock 0)),
                    (''model_used'', PyStr (py ''gpt-3.5-turbo'')),
                    (''tokens_used'', PyNone)]), w')
            \<and> calls_of (trace w')
              = replicate (Suc 1)
                  (chat_request example_config (py ''hi'') (py ''gpt-3.5-turbo'')))"
proof -
  let ?req = "chat_request example_config (py ''hi'') (py ''gpt-3.5-turbo'')"
  from hi_is_valid have h1: "py ''hi'' \<noteq> []" and h2: "\<not> list_all isspace (py ''hi'')"
    and h3: "int (length (py ''hi'')) \<le> MAX_MESSAGE_LENGTH example_config"
    by simp_all
  have h4: "int 1 < MAX_RETRIES example_config" by (simp add: example_config_def)
  have h5: "\<forall>j<1. \<exists>e. fails_then_empty j ?req = Raises e"
    by (simp add: fails_then_empty_def)
  have h6: "fails_then_empty 1 ?req = Returns (ChatCompletion [] None)"
    by (simp add: fails_then_empty_def)
  have h7: "no_message (ChatCompletion [] None)" by (simp add: no_message_def)
  have h0: "fails_then_empty 0 ?req = Raises (Exn APIConnectionError (py ''Connection error.''))"
    by (simp add: fails_then_empty_def)
  have g5: "\<forall>j<1. \<exists>e. fails_then_contentless j ?req = Raises e"
    by (simp add: fails_then_contentless_def)
  have g6: "fails_then_contentless 1 ?req
              = Returns (ChatCompletion [Choice (Some (ChatMessage None))] None)"
    by (simp add: fails_then_contentless_def contentless_def)
  have g0: "fails_then_contentless 0 ?req
              = Raises (Exn APIConnectionError (py ''Connection error.''))"
    by (simp add: fails_then_contentless_def)
  have first: "\<exists>w'. send_message example_config fails_then_empty wall_clock (py ''hi'')
              (py ''gpt-3.5-turbo'') fresh
              = (Returned (Some
                   [(''success'', PyBool False), (''response'', PyNone),
                    (''error'', PyStr (py ''Empty response from API'')),
                    (''response_time'', PyFloat (wall_clock 1 - wall_clock 0))]), w')
            \<and> calls_of (trace w') = replicate (Suc 1) ?req"
    using h7
      empty_response_is_final [where api = fails_then_empty and clock = wall_clock and k = 1,
        OF h1 h2 h3 h4 h5 h6]
    by blast
  have "\<exists>w'. send_message example_config fails_then_contentless wall_clock (py ''hi'')
              (py ''gpt-3.5-turbo'') fresh
              = (Returned (Some
                   [(''success'', PyBool True),
                    (''response'',
                       (case content (ChatMessage None) of None \<Rightarrow> PyNone
                        | Some s \<Rightarrow> PyStr s)),
                    (''error'', PyNone),
                    (''response_time'', PyFloat (wall_clock 1 - wall_clock 0)),
                    (''model_used'', PyStr (py ''gpt-3.5-turbo'')),
                    (''tokens_used'',
                       (case usage (ChatCompletion [Choice (Some (ChatMessage None))] None)
                        of None \<Rightarrow> PyNone | Some u \<Rightarrow> PyInt (total_tokens u)))]), w')
            \<and> calls_of (trace w') = replicate (Suc 1) ?req"
    using
      empty_response_is_final [where api = fails_then_contentless and clock = wall_clock
        and k = 1, OF h1 h2 h3 h4 g5 g6]
    by simp
  then have second: "\<exists>w'. send_message example_config fails_then_contentless wall_clock
              (py ''hi'') (py ''gpt-3.5-turbo'') fresh
              = (Returned (Some
                   [(''success'', PyBool True), (''response'', PyNone), (''error'', PyNone),
                    (''response_time'', PyFloat (wall_clock 1 - wall_clock 0)),
                    (''model_used'', PyStr (py ''gpt-3.5-turbo'')),
                    (''tokens_used'', PyNone)]), w')
            \<and> calls_of (trace w') = replicate (Suc 1) ?req"
    by simp
  from h0 h1 h2 h3 h4 h6 h7 first g0 g6 second show ?thesis
    by blast
qed

lemma run_contentless:
  assumes "msg \<noteq> []" and "\<not> list_all isspace msg"
    and "int (length msg) \<le> MAX_MESSAGE_LENGTH example_config"
  shows "send_message example_config always_contentless wall_clock msg mdl fresh
     = (Returned (Some
          [(''success'', PyBool True), (''response'', PyNone), (''error'', PyNone),
           (''response_time'', PyFloat 1), (''model_used'', PyStr mdl),
           (''tokens_used'', PyNone)]),
        \<lparr>trace = [Call (chat_request example_config msg mdl)], reads = 2\<rparr>)"
proof -
  have "send_message example_config always_contentless wall_clock msg mdl fresh
         = (Returned (Some (success contentless (ChatMessage None) mdl
                              (wall_clock 1 - wall_clock 0))),
            \<lparr>trace = [Call (chat_request example_config msg mdl)], reads = 2\<rparr>)"
    using assms hi_is_valid
    by (intro send_message_first_message [where c = "Choice (Some (ChatMessage None))"
          and cs = "[]"])
      (simp_all add: always_contentless_def contentless_def)
  then show ?thesis
    by (simp add: success_def contentless_def wall_clock_def)
qed

text \<open>
  C5 as it is worded fails on a completion whose first choice has a message with
  \<open>content = None\<close>, a response with no content: the test of the source looks at the
  message, not at its content, and \<open>send_message\<close> returns a success whose response is
  \<open>None\<close>.
\<close>

theorem contentless_completion_counterexample:
  "always_contentless 0 (chat_request example_config (py ''hi'') (py ''gpt-3.5-turbo''))
     = Returns (ChatCompletion [Choice (Some (ChatMessage None))] None)
   \<and> content (ChatMessage None) = None
   \<and> send_message example_config always_contentless wall_clock (py ''hi'')
       (py ''gpt-3.5-turbo'') fresh
     = (Returned (Some
          [(''success'', PyBool True), (''response'', PyNone), (''error'', PyNone),
           (''response_time'', PyFloat 1), (''model_used'', PyStr (py ''gpt-3.5-turbo'')),
           (''tokens_used'', PyNone)]),
        \<lparr>trace = [Call (chat_request example_config (py ''hi'') (py ''gpt-3.5-turbo''))],
         reads = 2\<rparr>)
   \<and> fst (send_message example_config always_contentless wall_clock (py ''hi'')
            (py ''gpt-3.5-turbo'') fresh)
     \<noteq> Returned (Some (failure (py ''Empty response from API'') (PyFloat 1)))"
  using hi_is_valid
  by (simp add: run_contentless always_contentless_def contentless_def failure_def)

section \<open>send\_message: the API raises on every attempt\<close>

text \<open>
  Whatever the API raises, when it raises on every attempt \<open>send_message\<close> issues
  \<open>MAX_RETRIES\<close> calls, sleeps one second after each but the last, and returns the
  failure of the last exception.
\<close>

lemma attempts_all_raise:
  assumes "\<And>j. api j (chat_request cfg msg mdl) = Raises (exc j)"
    and "int attempt + int k + 1 = MAX_RETRIES cfg"
  shows "\<exists>w'. attempts cfg api clock msg mdl st (Suc k) attempt w
                 = (Returned (Some (failure (final_error (exc (attempt + k)))
                                      (PyFloat (clock (reads w) - st)))), w')
              \<and> calls_of (trace w')
                 = calls_of (trace w) @ replicate (Suc k) (chat_request cfg msg mdl)
              \<and> sleeps_of (trace w') = sleeps_of (trace w) @ replicate k 1"
  using assms(2)
proof (induction k arbitrary: attempt w)
  case 0
  then have last: "int attempt = MAX_RETRIES cfg - 1" by simp
  let ?w = "snd (time_time clock (emit (LogError (log_line (exc attempt) attempt))
                                    (emit (Call (chat_request cfg msg mdl)) w)))"
  have "attempts cfg api clock msg mdl st (Suc 0) attempt w
          = (Returned (Some (failure (final_error (exc (attempt + 0)))
                               (PyFloat (clock (reads w) - st)))), ?w)"
    using attempts_Raises_last [where api = api and attempt = attempt, OF assms(1) last]
    by simp
  moreover have "calls_of (trace ?w)
      = calls_of (trace w) @ replicate (Suc 0) (chat_request cfg msg mdl)"
    by (simp add: time_time_def emit_def calls_of_append)
  moreover have "sleeps_of (trace ?w) = sleeps_of (trace w) @ replicate 0 1"
    by (simp add: time_time_def emit_def sleeps_of_append)
  ultimately show ?case by blast
next
  case (Suc k)
  then have ne: "int attempt \<noteq> MAX_RETRIES cfg - 1" by simp
  let ?w = "emit (Sleep 1) (emit (LogError (log_line (exc attempt) attempt))
              (emit (Call (chat_request cfg msg mdl)) w))"
  have step: "attempts cfg api clock msg mdl st (Suc (Suc k)) attempt w
              = attempts cfg api clock msg mdl st (Suc k) (Suc attempt) ?w"
    by (rule attempts_Raises_retry [where api = api and attempt = attempt, OF assms(1) ne])
  from Suc.prems have "int (Suc attempt) + int k + 1 = MAX_RETRIES cfg" by simp
  from Suc.IH [OF this, of ?w] obtain w' where w':
    "attempts cfg api clock msg mdl st (Suc k) (Suc attempt) ?w
       = (Returned (Some (failure (final_error (exc (Suc attempt + k)))
                            (PyFloat (clock (reads ?w) - st)))), w')"
    "calls_of (trace w')
       = calls_of (trace ?w) @ replicate (Suc k) (chat_request cfg msg mdl)"
    "sleeps_of (trace w') = sleeps_of (trace ?w) @ replicate k 1"
    by blast
  have c: "calls_of (trace ?w) = calls_of (trace w) @ [chat_request cfg msg mdl]"
    by (simp add: emit_def calls_of_append)
  have sl: "sleeps_of (trace ?w) = sleeps_of (trace w) @ [1]"
    by (simp add: emit_def sleeps_of_append)
  have "attempts cfg api clock msg mdl st (Suc (Suc k)) attempt w
          = (Returned (Some (failure (final_error (exc (attempt + Suc k)))
                               (PyFloat (clock (reads w) - st)))), w')"
    using step w'(1) by (simp add: reads_emit)
  moreover have "calls_of (trace w')
      = calls_of (trace w) @ replicate (Suc (Suc k)) (chat_request cfg msg mdl)"
    using w'(2) c by (simp add: replicate_app_Cons_same)
  moreover have "sleeps_of (trace w') = sleeps_of (trace w) @ replicate (Suc k) 1"
    using w'(3) sl by (simp add: replicate_app_Cons_same)
  ultimately show ?case by blast
qed

lemma send_message_all_raise:
  assumes "msg \<noteq> []" and "\<not> list_all isspace msg"
    and "int (length msg) \<le> MAX_MESSAGE_LENGTH cfg"
    and "0 < MAX_RETRIES cfg"
    and "\<And>j. api j (chat_request cfg msg mdl) = Raises (exc j)"
  shows "\<exists>w'. send_message cfg api clock msg mdl fresh
                = (Returned (Some (failure (final_error (exc (nat (MAX_RETRIES cfg) - 1)))
                                     (PyFloat (clock 1 - clock 0)))), w')
              \<and> calls_of (trace w')
                = replicate (nat (MAX_RETRIES cfg)) (chat_request cfg msg mdl)
              \<and> sleeps_of (trace w') = replicate (nat (MAX_RETRIES cfg) - 1) 1"
proof -
  from assms(4) obtain r where n: "nat (MAX_RETRIES cfg) = Suc r"
    by (cases "nat (MAX_RETRIES cfg)") auto
  then have r: "int 0 + int r + 1 = MAX_RETRIES cfg" by linarith
  let ?w1 = "fresh\<lparr>reads := Suc 0\<rparr>"
  have start: "send_message cfg api clock msg mdl fresh
        = attempts cfg api clock msg mdl (clock 0) (Suc r) 0 ?w1"
    using assms(1-3) by (simp add: send_message_def strip_empty_iff time_time_def fresh_def n)
  from attempts_all_raise [where api = api and exc = exc and attempt = 0 and w = ?w1
      and clock = clock and st = "clock 0", OF assms(5) r]
  show ?thesis
    unfolding start n by (simp add: fresh_def)
qed

lemma final_error_RateLimitError:
  "final_error (Exn RateLimitError s) = py ''API Error: '' @ s"
  by (simp add: final_error_def isinstance_def)

lemma final_error_AuthenticationError:
  "final_error (Exn AuthenticationError s) = py ''API Error: '' @ s"
  by (simp add: final_error_def isinstance_def)

lemma three_attempts:
  assumes "\<And>j. api j (chat_request example_config (py ''hi'') mdl) = Raises e"
    and "isinstance e APIError"
  shows "send_message example_config api wall_clock (py ''hi'') mdl fresh
     = (Returned (Some (failure (py ''API Error: '' @ str_of e) (PyFloat 1))),
        \<lparr>trace =
           [Call (chat_request example_config (py ''hi'') mdl),
            LogError (py ''OpenAI API error (attempt 1): '' @ str_of e),
            Sleep 1,
            Call (chat_request example_config (py ''hi'') mdl),
            LogError (py ''OpenAI API error (attempt 2): '' @ str_of e),
            Sleep 1,
            Call (chat_request example_config (py ''hi'') mdl),
            LogError (py ''OpenAI API error (attempt 3): '' @ str_of e)],
         reads = 2\<rparr>)"
proof -
  let ?req = "chat_request example_config (py ''hi'') mdl"
  have m: "MAX_RETRIES example_config = 3" by (simp add: example_config_def)
  have n: "nat (MAX_RETRIES example_config) = Suc (Suc (Suc 0))" by (simp add: m)
  have l1: "log_line e 0 = py ''OpenAI API error (attempt 1): '' @ str_of e"
    and l2: "log_line e (Suc 0) = py ''OpenAI API error (attempt 2): '' @ str_of e"
    and l3: "log_line e (Suc (Suc 0)) = py ''OpenAI API error (attempt 3): '' @ str_of e"
    using assms(2) by (simp_all add: log_line_def str_int_def str_nat.simps py_def)
  have f: "final_error e = py ''API Error: '' @ str_of e"
    using assms(2) by (simp add: final_error_def)
  let ?w1 = "fresh\<lparr>reads := Suc 0\<rparr>"
  have "send_message example_config api wall_clock (py ''hi'') mdl fresh
        = attempts example_config api wall_clock (py ''hi'') mdl (wall_clock 0)
            (Suc (Suc (Suc 0))) 0 ?w1"
    using hi_is_valid
    by (simp add: send_message_def strip_empty_iff time_time_def fresh_def n)
  also have "\<dots> = attempts example_config api wall_clock (py ''hi'') mdl (wall_clock 0)
            (Suc (Suc 0)) (Suc 0)
            (emit (Sleep 1) (emit (LogError (log_line e 0)) (emit (Call ?req) ?w1)))"
    by (rule attempts_Raises_retry [where api = api and attempt = 0, OF assms(1)])
      (simp add: m)
  also have "\<dots> = attempts example_config api wall_clock (py ''hi'') mdl (wall_clock 0)
            (Suc 0) (Suc (Suc 0))
            (emit (Sleep 1) (emit (LogError (log_line e (Suc 0))) (emit (Call ?req)
              (emit (Sleep 1) (emit (LogError (log_line e 0)) (emit (Call ?req) ?w1))))))"
    by (rule attempts_Raises_retry [where api = api and attempt = "Suc 0", OF assms(1)])
      (simp add: m)
  also have "\<dots> = (Returned (Some (failure (final_error e)
                 (PyFloat (wall_clock (reads
                    (emit (Sleep 1) (emit (LogError (log_line e (Suc 0))) (emit (Call ?req)
                      (emit (Sleep 1) (emit (LogError (log_line e 0))
                        (emit (Call ?req) ?w1))))))) - wall_clock 0)))),
            snd (time_time wall_clock (emit (LogError (log_line e (Suc (Suc 0))))
              (emit (Call ?req)
                (emit (Sleep 1) (emit (LogError (log_line e (Suc 0))) (emit (Call ?req)
                  (emit (Sleep 1) (emit (LogError (log_line e 0))
                    (emit (Call ?req) ?w1))))))))))"
    by (rule attempts_Raises_last [where api = api and attempt = "Suc (Suc 0)", OF assms(1)])
      (simp add: m)
  finally show ?thesis
    by (simp add: l1 l2 l3 f emit_def time_time_def fresh_def wall_clock_def)
qed

text \<open>
  C1 at a concrete input: with three attempts allowed and a \<open>RateLimitError\<close> raised on
  every call, \<open>send_message\<close> issues three calls, sleeps 1 second (not 2) between them,
  logs each as an API error and returns the error \<open>API Error: slow down\<close>, which is not
  the rate-limit message: the clause \<open>except openai.APIError\<close> stands before the clause
  \<open>except openai.RateLimitError\<close> and catches the exception.
\<close>

theorem rate_limit_handled_as_api_error:
  "send_message example_config always_rate_limited wall_clock (py ''hi'')
     (py ''gpt-3.5-turbo'') fresh
     = (Returned (Some (failure (py ''API Error: slow down'') (PyFloat 1))),
        \<lparr>trace =
           [Call (chat_request example_config (py ''hi'') (py ''gpt-3.5-turbo'')),
            LogError (py ''OpenAI API error (attempt 1): slow down''),
            Sleep 1,
            Call (chat_request example_config (py ''hi'') (py ''gpt-3.5-turbo'')),
            LogError (py ''OpenAI API error (attempt 2): slow down''),
            Sleep 1,
            Call (chat_request example_config (py ''hi'') (py ''gpt-3.5-turbo'')),
            LogError (py ''OpenAI API error (attempt 3): slow down'')],
         reads = 2\<rparr>)
   \<and> py ''API Error: slow down'' \<noteq> py ''Rate limit exceeded. Please try again later.''"
proof -
  have "isinstance (Exn RateLimitError (py ''slow down'')) APIError"
    by (simp add: isinstance_def)
  from three_attempts [where api = always_rate_limited
      and e = "Exn RateLimitError (py ''slow down'')" and mdl = "py ''gpt-3.5-turbo''", OF _ this]
  show ?thesis
    by (simp add: always_rate_limited_def py_def)
qed

text \<open>
  C2 at a concrete input: with three attempts allowed and an \<open>AuthenticationError\<close>
  raised on every call, \<open>send_message\<close> does not return after the first call: it sleeps
  1 second and retries, issues three calls and returns the error \<open>API Error: bad key\<close>,
  not the message about the API key, for the same reason.
\<close>

theorem authentication_error_is_retried:
  "send_message example_config always_unauthorized wall_clock (py ''hi'')
     (py ''gpt-3.5-turbo'') fresh
     = (Returned (Some (failure (py ''API Error: bad key'') (PyFloat 1))),
        \<lparr>trace =
           [Call (chat_request example_config (py ''hi'') (py ''gpt-3.5-turbo'')),
            LogError (py ''OpenAI API error (attempt 1): bad key''),
            Sleep 1,
            Call (chat_request example_config (py ''hi'') (py ''gpt-3.5-turbo'')),
            LogError (py ''OpenAI API error (attempt 2): bad key''),
            Sleep 1,
            Call (chat_request example_config (py ''hi'') (py ''gpt-3.5-turbo'')),
            LogError (py ''OpenAI API error (attempt 3): bad key'')],
         reads = 2\<rparr>)
   \<and> py ''API Error: bad key'' \<noteq> py ''Invalid API key. Please check your configuration.''"
proof -
  have "isinstance (Exn AuthenticationError (py ''bad key'')) APIError"
    by (simp add: isinstance_def)
  from three_attempts [where api = always_unauthorized
      and e = "Exn AuthenticationError (py ''bad key'')" and mdl = "py ''gpt-3.5-turbo''",
      OF _ this]
  show ?thesis
    by (simp add: always_unauthorized_def py_def)
qed

section \<open>send\_message: the returned dictionary\<close>

lemma structural_invariant_failure: "structural_invariant (failure err t)"
  by (simp add: structural_invariant_def failure_def succeeded_def failed_def present_def)

lemma structural_invariant_success: "structural_invariant (success response m mdl t)"
  by (simp add: structural_invariant_def success_def succeeded_def failed_def present_def
      split: option.splits)

lemma nonneg_time_failure: "0 \<le> t \<Longrightarrow> nonneg_time (failure err (PyFloat t))"
  by (simp add: failure_def nonneg_time_def)

lemma nonneg_time_success: "0 \<le> t \<Longrightarrow> nonneg_time (success response m mdl t)"
  by (simp add: success_def nonneg_time_def)

lemma attempts_invariant:
  "attempts cfg api clock msg mdl st k attempt w = (Returned (Some d), w') \<Longrightarrow>
     structural_invariant d \<and> (st \<le> clock (reads w) \<longrightarrow> nonneg_time d)"
proof (induction k arbitrary: attempt w)
  case 0
  then show ?case by simp
next
  case (Suc k)
  have t: "st \<le> clock (reads w) \<Longrightarrow> 0 \<le> clock (reads w) - st" by simp
  show ?case
  proof (cases "api attempt (chat_request cfg msg mdl)")
    case (Returns response)
    show ?thesis
    proof (cases "no_message response")
      case True
      from Suc.prems t show ?thesis
        unfolding attempts_Returns_empty [where api = api and attempt = attempt, OF Returns True]
        by (auto simp: structural_invariant_failure nonneg_time_failure)
    next
      case False
      then obtain c cs m where cm: "choices response = c # cs" "message c = Some m"
        by (auto simp: no_message_def split: list.splits)
      from Suc.prems t show ?thesis
        unfolding attempts_Returns_message [where api = api and attempt = attempt, OF Returns cm]
        by (auto simp: structural_invariant_success nonneg_time_success)
    qed
  next
    case (Raises e)
    show ?thesis
    proof (cases "int attempt = MAX_RETRIES cfg - 1")
      case True
      from Suc.prems t show ?thesis
        unfolding attempts_Raises_last [where api = api and attempt = attempt, OF Raises True]
        by (auto simp: structural_invariant_failure nonneg_time_failure)
    next
      case False
      from Suc.prems have
        "attempts cfg api clock msg mdl st k (Suc attempt)
           (emit (Sleep 1) (emit (LogError (log_line e attempt))
              (emit (Call (chat_request cfg msg mdl)) w))) = (Returned (Some d), w')"
        unfolding attempts_Raises_retry [where api = api and attempt = attempt, OF Raises False] .
      from Suc.IH [OF this] show ?thesis
        by (simp add: reads_emit)
    qed
  qed
qed

lemma run_greeting_backward:
  "send_message example_config always_greeting backward_clock (py ''hi'') (py ''gpt-4'') fresh
     = (Returned (Some
          [(''success'', PyBool True), (''response'', PyStr (py ''Hello!'')),
           (''error'', PyNone), (''response_time'', PyFloat (- 10)),
           (''model_used'', PyStr (py ''gpt-4'')), (''tokens_used'', PyInt 12)]),
        \<lparr>trace = [Call (chat_request example_config (py ''hi'') (py ''gpt-4''))],
         reads = 2\<rparr>)"
proof -
  have "send_message example_config always_greeting backward_clock (py ''hi'') (py ''gpt-4'')
          fresh
     = (Returned (Some (success greeting (ChatMessage (Some (py ''Hello!'')))
                          (py ''gpt-4'') (backward_clock 1 - backward_clock 0))),
        \<lparr>trace = [Call (chat_request example_config (py ''hi'') (py ''gpt-4''))],
         reads = 2\<rparr>)"
    using hi_is_valid
    by (intro send_message_first_message
          [where c = "Choice (Some (ChatMessage (Some (py ''Hello!''))))" and cs = "[]"])
      (simp_all add: always_greeting_def greeting_def)
  then show ?thesis
    by (simp add: success_def greeting_def backward_clock_def)
qed

text \<open>
  C6, as the code has it: every dictionary \<open>send_message\<close> returns, for any message,
  any outcomes of the API and any clock, has an error iff \<open>success\<close> is false, has no
  response when \<open>success\<close> is false, has a response only when \<open>success\<close> is true, and
  has \<open>model_used\<close> iff \<open>success\<close> is true; its response time is a non-negative number
  if the reading of the clock after the start time is not below the start time.
\<close>

theorem send_message_result_invariant:
  assumes "fst (send_message cfg api clock msg mdl w) = Returned (Some d)"
  shows "structural_invariant d
         \<and> (clock (reads w) \<le> clock (Suc (reads w)) \<longrightarrow> nonneg_time d)"
proof (cases "msg = [] \<or> strip msg = [] \<or> int (length msg) > MAX_MESSAGE_LENGTH cfg")
  case True
  with assms show ?thesis
    by (auto simp: send_message_def structural_invariant_def failure_def succeeded_def
        failed_def present_def nonneg_time_def split: if_splits)
next
  case False
  obtain w' where
    "attempts cfg api clock msg mdl (clock (reads w)) (nat (MAX_RETRIES cfg)) 0
       (w\<lparr>reads := Suc (reads w)\<rparr>) = (Returned (Some d), w')"
    using False assms by (cases "attempts cfg api clock msg mdl (clock (reads w))
       (nat (MAX_RETRIES cfg)) 0 (w\<lparr>reads := Suc (reads w)\<rparr>)")
      (auto simp: send_message_def time_time_def)
  from attempts_invariant [OF this] show ?thesis by simp
qed

theorem send_message_result_invariant_witness:
  "fst (send_message example_config always_greeting wall_clock (py ''hi'')
          (py ''gpt-3.5-turbo'') fresh)
     = Returned (Some
          [(''success'', PyBool True), (''response'', PyStr (py ''Hello!'')),
           (''error'', PyNone), (''response_time'', PyFloat (wall_clock 1 - wall_clock 0)),
           (''model_used'', PyStr (py ''gpt-3.5-turbo'')), (''tokens_used'', PyInt 12)])
   \<and> wall_clock (reads fresh) \<le> wall_clock (Suc (reads fresh))
   \<and> structural_invariant
          [(''success'', PyBool True), (''response'', PyStr (py ''Hello!'')),
           (''error'', PyNone), (''response_time'', PyFloat (wall_clock 1 - wall_clock 0)),
           (''model_used'', PyStr (py ''gpt-3.5-turbo'')), (''tokens_used'', PyInt 12)]
   \<and> nonneg_time
          [(''success'', PyBool True), (''response'', PyStr (py ''Hello!'')),
           (''error'', PyNone), (''response_time'', PyFloat (wall_clock 1 - wall_clock 0)),
           (''model_used'', PyStr (py ''gpt-3.5-turbo'')), (''tokens_used'', PyInt 12)]"
proof -
  have run: "send_message example_config always_greeting wall_clock (py ''hi'')
          (py ''gpt-3.5-turbo'') fresh
     = (Returned (Some (success greeting (ChatMessage (Some (py ''Hello!'')))
                          (py ''gpt-3.5-turbo'') (wall_clock 1 - wall_clock 0))),
        \<lparr>trace = [Call (chat_request example_config (py ''hi'') (py ''gpt-3.5-turbo''))],
         reads = 2\<rparr>)"
    using hi_is_valid
    by (intro send_message_first_message
          [where c = "Choice (Some (ChatMessage (Some (py ''Hello!''))))" and cs = "[]"])
      (simp_all add: always_greeting_def greeting_def)
  have h1: "fst (send_message example_config always_greeting wall_clock (py ''hi'')
          (py ''gpt-3.5-turbo'') fresh)
     = Returned (Some
          [(''success'', PyBool True), (''response'', PyStr (py ''Hello!'')),
           (''error'', PyNone), (''response_time'', PyFloat (wall_clock 1 - wall_clock 0)),
           (''model_used'', PyStr (py ''gpt-3.5-turbo'')), (''tokens_used'', PyInt 12)])"
    by (simp add: run success_def greeting_def)
  have h2: "wall_clock (reads fresh) \<le> wall_clock (Suc (reads fresh))"
    by (simp add: wall_clock_def)
  show ?thesis
    using h1 h2 send_message_result_invariant [OF h1]
    by blast
qed

text \<open>
  C6 as it is worded fails in two ways. On a completion whose message has
  \<open>content = None\<close> the dictionary has \<open>success = True\<close> and neither a response nor an
  error. With a clock that is set back between the reading of the start time and the
  reading after the call, 10 then 0, the response time of the returned dictionary is
  \<open>-10\<close>: no assumption on the clock can be dropped from the last part.
\<close>

theorem dispatch_invariant_counterexample:
  "fst (send_message example_config always_contentless wall_clock (py ''hi'') (py ''gpt-4'')
          fresh)
     = Returned (Some
          [(''success'', PyBool True), (''response'', PyNone), (''error'', PyNone),
           (''response_time'', PyFloat 1), (''model_used'', PyStr (py ''gpt-4'')),
           (''tokens_used'', PyNone)])
   \<and> \<not> dispatch_invariant
          [(''success'', PyBool True), (''response'', PyNone), (''error'', PyNone),
           (''response_time'', PyFloat 1), (''model_used'', PyStr (py ''gpt-4'')),
           (''tokens_used'', PyNone)]
   \<and> backward_clock 0 = 10 \<and> backward_clock 1 = 0
   \<and> fst (send_message example_config always_greeting backward_clock (py ''hi'')
            (py ''gpt-4'') fresh)
     = Returned (Some
          [(''success'', PyBool True), (''response'', PyStr (py ''Hello!'')),
           (''error'', PyNone), (''response_time'', PyFloat (- 10)),
           (''model_used'', PyStr (py ''gpt-4'')), (''tokens_used'', PyInt 12)])
   \<and> \<not> nonneg_time
          [(''success'', PyBool True), (''response'', PyStr (py ''Hello!'')),
           (''error'', PyNone), (''response_time'', PyFloat (- 10)),
           (''model_used'', PyStr (py ''gpt-4'')), (''tokens_used'', PyInt 12)]
   \<and> \<not> dispatch_invariant
          [(''success'', PyBool True), (''response'', PyStr (py ''Hello!'')),
           (''error'', PyNone), (''response_time'', PyFloat (- 10)),
           (''model_used'', PyStr (py ''gpt-4'')), (''tokens_used'', PyInt 12)]"
  using hi_is_valid
  by (simp add: run_contentless run_greeting_backward dispatch_invariant_def succeeded_def
      present_def nonneg_time_def backward_clock_def)

section \<open>send\_message always returns a structured result\<close>

lemma is_dispatch_result_failure: "is_dispatch_result (failure err t)"
  by (simp add: is_dispatch_result_def failure_def failed_def present_def)

lemma is_dispatch_result_success: "is_dispatch_result (success response m mdl t)"
  by (simp add: is_dispatch_result_def success_def succeeded_def present_def)

lemma calls_after_call:
  "length (calls_of (trace (snd (time_time clock (emit (Call req) w)))))
     = Suc (length (calls_of (trace w)))"
  by (simp add: time_time_def emit_def calls_of_append)

lemma attempts_Returns_some:
  assumes "api attempt (chat_request cfg msg mdl) = Returns response"
  shows "\<exists>d w'. attempts cfg api clock msg mdl st (Suc k) attempt w = (Returned (Some d), w')
           \<and> is_dispatch_result d
           \<and> length (calls_of (trace w')) = Suc (length (calls_of (trace w)))"
proof (cases "no_message response")
  case True
  show ?thesis
    unfolding attempts_Returns_empty [where api = api and attempt = attempt, OF assms True]
    using is_dispatch_result_failure calls_after_call by blast
next
  case False
  then obtain c cs m where cm: "choices response = c # cs" "message c = Some m"
    by (auto simp: no_message_def split: list.splits)
  show ?thesis
    unfolding attempts_Returns_message [where api = api and attempt = attempt, OF assms cm]
    using is_dispatch_result_success calls_after_call by blast
qed

lemma attempts_always_returns:
  "int attempt + int k + 1 = MAX_RETRIES cfg \<Longrightarrow>
     \<exists>d w'. attempts cfg api clock msg mdl st (Suc k) attempt w = (Returned (Some d), w')
       \<and> is_dispatch_result d
       \<and> length (calls_of (trace w')) \<le> length (calls_of (trace w)) + Suc k"
proof (induction k arbitrary: attempt w)
  case 0
  show ?case
  proof (cases "api attempt (chat_request cfg msg mdl)")
    case (Returns response)
    from attempts_Returns_some [where api = api and attempt = attempt, OF this]
    show ?thesis by fastforce
  next
    case (Raises e)
    from 0 have last: "int attempt = MAX_RETRIES cfg - 1" by simp
    have "length (calls_of (trace (snd (time_time clock
             (emit (LogError (log_line e attempt))
                (emit (Call (chat_request cfg msg mdl)) w))))))
          = Suc (length (calls_of (trace w)))"
      by (simp add: time_time_def emit_def calls_of_append)
    then show ?thesis
      unfolding attempts_Raises_last [where api = api and attempt = attempt, OF Raises last]
      using is_dispatch_result_failure by fastforce
  qed
next
  case (Suc k)
  show ?case
  proof (cases "api attempt (chat_request cfg msg mdl)")
    case (Returns response)
    from attempts_Returns_some [where api = api and attempt = attempt, OF this]
    show ?thesis by fastforce
  next
    case (Raises e)
    from Suc.prems have ne: "int attempt \<noteq> MAX_RETRIES cfg - 1" by simp
    from Suc.prems have "int (Suc attempt) + int k + 1 = MAX_RETRIES cfg" by simp
    from Suc.IH [OF this] show ?thesis
      unfolding attempts_Raises_retry [where api = api and attempt = attempt, OF Raises ne]
      by (fastforce simp: emit_def calls_of_append)
  qed
qed

lemma send_message_always_returns:
  assumes "0 < MAX_RETRIES cfg"
  shows "\<exists>d w'. send_message cfg api clock msg mdl w = (Returned (Some d), w')
           \<and> is_dispatch_result d
           \<and> length (calls_of (trace w'))
               \<le> length (calls_of (trace w)) + nat (MAX_RETRIES cfg)"
proof (cases "msg = [] \<or> strip msg = [] \<or> int (length msg) > MAX_MESSAGE_LENGTH cfg")
  case True
  then show ?thesis
    by (auto simp: send_message_def is_dispatch_result_failure)
next
  case False
  from assms obtain k where k: "nat (MAX_RETRIES cfg) = Suc k"
    by (cases "nat (MAX_RETRIES cfg)") auto
  then have "int 0 + int k + 1 = MAX_RETRIES cfg" by linarith
  from attempts_always_returns [OF this, of api clock msg mdl "clock (reads w)"
      "w\<lparr>reads := Suc (reads w)\<rparr>"]
  show ?thesis
    using False by (auto simp: send_message_def k time_time_def)
qed

section \<open>The constructor\<close>

lemma validate_config_iff:
  "validate_config cfg
     = ((\<exists>k. OPENAI_API_KEY cfg = Some k \<and> k \<noteq> []) \<and> 0 < MAX_MESSAGE_LENGTH cfg
        \<and> 0 < MAX_RETRIES cfg \<and> 0 < API_TIMEOUT cfg)"
  by (cases "OPENAI_API_KEY cfg") (auto simp: validate_config_def get_missing_config_def)

lemma LLMService_init_valid:
  assumes "validate_config cfg"
  shows "\<exists>client. LLMService_init cfg environ_key = Returned client"
proof -
  from assms obtain k where "OPENAI_API_KEY cfg = Some k"
    unfolding validate_config_iff by blast
  with assms show ?thesis
    by (simp add: LLMService_init_def OpenAI_def)
qed

text \<open>
  C7: for every configuration with a positive \<open>MAX_RETRIES\<close>, every message, every
  clock and every sequence of outcomes of the API, exceptions included, \<open>send_message\<close>
  returns a structured result, a dictionary with the keys of a failure or of a success:
  no exception leaves it and it does not end without a result; and it has issued at most
  \<open>MAX_RETRIES\<close> calls. A configuration that passes the validation has a positive
  \<open>MAX_RETRIES\<close>, and on it the constructor returns a service, the creation of the
  client included. On a configuration that fails the validation the constructor
  raises \<open>ValueError\<close> with the list of the missing keys.
\<close>

theorem send_message_never_raises:
  "(0 < MAX_RETRIES cfg \<longrightarrow>
      (\<exists>d w'. send_message cfg api clock msg mdl w = (Returned (Some d), w')
         \<and> is_dispatch_result d
         \<and> length (calls_of (trace w'))
             \<le> length (calls_of (trace w)) + nat (MAX_RETRIES cfg)))
   \<and> (validate_config cfg \<longrightarrow>
        0 < MAX_RETRIES cfg
        \<and> (\<exists>client. LLMService_init cfg environ_key = Returned client))
   \<and> (\<not> validate_config cfg \<longrightarrow>
        LLMService_init cfg environ_key
          = Raised (Exn (OtherException ''ValueError'')
              (py ''Missing required configuration: ''
               @ join (py '', '') (get_missing_config cfg))))"
proof -
  have "0 < MAX_RETRIES cfg" if "validate_config cfg"
    using that unfolding validate_config_iff by blast
  moreover have "LLMService_init cfg environ_key
          = Raised (Exn (OtherException ''ValueError'')
              (py ''Missing required configuration: ''
               @ join (py '', '') (get_missing_config cfg)))" if "\<not> validate_config cfg"
    using that by (simp add: LLMService_init_def)
  ultimately show ?thesis
    using send_message_always_returns [of cfg api clock msg mdl w]
      LLMService_init_valid [of cfg environ_key]
    by blast
qed

theorem send_message_never_raises_witness:
  "0 < MAX_RETRIES example_config
   \<and> (\<exists>d w'. send_message example_config always_broken wall_clock (py ''hi'')
                (py ''gpt-3.5-turbo'') fresh = (Returned (Some d), w')
         \<and> is_dispatch_result d
         \<and> length (calls_of (trace w'))
             \<le> length (calls_of (trace fresh)) + nat (MAX_RETRIES example_config))
   \<and> validate_config example_config
   \<and> (\<exists>client. LLMService_init example_config None = Returned client)
   \<and> \<not> validate_config keyless_config
   \<and> LLMService_init keyless_config None
       = Raised (Exn (OtherException ''ValueError'')
           (py ''Missing required configuration: OPENAI_API_KEY''))"
proof -
  have h: "0 < MAX_RETRIES example_config" by (simp add: example_config_def)
  have v: "validate_config example_config"
    by (simp add: validate_config_def get_missing_config_def example_config_def py_def)
  have n: "\<not> validate_config keyless_config"
    by (simp add: validate_config_def get_missing_config_def keyless_config_def)
  have m: "py ''Missing required configuration: ''
             @ join (py '', '') (get_missing_config keyless_config)
           = py ''Missing required configuration: OPENAI_API_KEY''"
    by (simp add: get_missing_config_def keyless_config_def py_def)
  show ?thesis
    using h v n
      send_message_never_raises [of example_config always_broken wall_clock "py ''hi''"
        "py ''gpt-3.5-turbo''" fresh None]
      send_message_never_raises [of keyless_config always_broken wall_clock "py ''hi''"
        "py ''gpt-3.5-turbo''" fresh None]
    unfolding m
    by blast
qed

text \<open>
  The hypothesis is needed: with \<open>MAX_RETRIES\<close> not positive the loop body never runs
  and \<open>send_message\<close> returns \<open>None\<close> for a message that passes the checks.
\<close>

lemma no_retries_returns_None:
  assumes "MAX_RETRIES cfg \<le> 0" and "msg \<noteq> []" and "\<not> list_all isspace msg"
    and "int (length msg) \<le> MAX_MESSAGE_LENGTH cfg"
  shows "fst (send_message cfg api clock msg mdl w) = Returned None"
  using assms by (simp add: send_message_def strip_empty_iff time_time_def)

end
